theory Spec2Isabelle
  imports Main
begin

section \<open>Python strings\<close>

text \<open>
  A Python \<open>str\<close> is modelled as a \<open>string\<close> (a list of 8-bit characters), so the
  model is exact on ASCII text. The wire protocol of the panel (\<open>BTN\<close>, \<open>READY\<close>,
  \<open>LED\<close>, \<open>DOWN\<close>, decimal periods) is ASCII.
\<close>

text \<open>The upper-case form of one character: the 26 ASCII letters change, nothing else.\<close>

definition upper_char :: "char \<Rightarrow> char" where
  "upper_char c =
     (case map_of (zip ''abcdefghijklmnopqrstuvwxyz'' ''ABCDEFGHIJKLMNOPQRSTUVWXYZ'') c of
        None \<Rightarrow> c
      | Some u \<Rightarrow> u)"

text \<open>\<open>str.upper()\<close>.\<close>

definition upper :: "string \<Rightarrow> string" where
  "upper s = map upper_char s"

text \<open>\<open>str.split(sep)\<close> with a one-character separator: never returns an empty list.\<close>

fun split :: "char \<Rightarrow> string \<Rightarrow> string list" where
  "split sep [] = [[]]"
| "split sep (c # cs) =
     (if c = sep then [] # split sep cs
      else (case split sep cs of
              [] \<Rightarrow> [[c]]
            | p # ps \<Rightarrow> (c # p) # ps))"

text \<open>
  The characters \<open>str.strip()\<close> removes, within ASCII: tab, line feed, vertical tab,
  form feed, carriage return, the four separators \<open>0x1c\<close> .. \<open>0x1f\<close>, and the space.
\<close>

definition is_space :: "char \<Rightarrow> bool" where
  "is_space c = (let n = (of_char c :: nat) in (9 \<le> n \<and> n \<le> 13) \<or> (28 \<le> n \<and> n \<le> 32))"

definition strip :: "string \<Rightarrow> string" where
  "strip s = rev (dropWhile is_space (rev (dropWhile is_space s)))"

text \<open>\<open>str(n)\<close> and \<open>f"{n}"\<close> for an integer: the decimal digits, with a sign when negative.\<close>

definition digit_char :: "nat \<Rightarrow> char" where
  "digit_char d = ''0123456789'' ! d"

fun digits :: "nat \<Rightarrow> string" where
  "digits n = (if n < 10 then [digit_char n] else digits (n div 10) @ [digit_char (n mod 10)])"

declare digits.simps [simp del]

definition str_int :: "int \<Rightarrow> string" where
  "str_int i = (if i < 0 then CHR ''-'' # digits (nat (- i)) else digits (nat i))"

section \<open>LED commands\<close>

text \<open>\<open>led_id: Union[str, int]\<close>, and \<open>str(led_id)\<close>.\<close>

datatype led_id = IdStr string | IdInt int

fun str_led_id :: "led_id \<Rightarrow> string" where
  "str_led_id (IdStr s) = s"
| "str_led_id (IdInt i) = str_int i"

text \<open>The line that \<open>ButtonDriver.send_led\<close> builds before it hands it to the transport.\<close>

definition led_command :: "led_id \<Rightarrow> string \<Rightarrow> int option \<Rightarrow> string" where
  "led_command led mode argument =
     (let led_str = str_led_id led;
          command = ''LED|'' @ led_str @ ''|'' @ mode
      in case argument of
           None \<Rightarrow> command
         | Some a \<Rightarrow> command @ ''|'' @ str_int a)"

section \<open>Outcomes of a call\<close>

text \<open>
  The exceptions that occur in the driver. \<open>KeyboardInterrupt\<close> stands for the
  exceptions that do not derive from \<open>Exception\<close>; \<open>OtherException\<close> for any
  other subclass of \<open>Exception\<close>.
\<close>

datatype py_exception =
  SerialException | FileNotFoundError | NotImplementedError | ValueError | TypeError
  | OverflowError | OtherException | KeyboardInterrupt

fun is_Exception :: "py_exception \<Rightarrow> bool" where
  "is_Exception KeyboardInterrupt = False"
| "is_Exception _ = True"

text \<open>
  A call returns a value, raises, or blocks for ever on a lock. A result \<open>None\<close> of a
  function with fuel means that the fuel did not suffice: the call has not come back yet.
\<close>

datatype 'a outcome = Returned 'a | Raised py_exception | Blocked

type_synonym ('a, 's) result = "('a outcome \<times> 's) option"

text \<open>Sequencing: the second statement runs when the first returned.\<close>

definition and_then :: "('a, 's) result \<Rightarrow> ('a \<Rightarrow> 's \<Rightarrow> ('b, 's) result) \<Rightarrow> ('b, 's) result" where
  "and_then m k =
     (case m of
        None \<Rightarrow> None
      | Some (Returned x, s) \<Rightarrow> k x s
      | Some (Raised e, s) \<Rightarrow> Some (Raised e, s)
      | Some (Blocked, s) \<Rightarrow> Some (Blocked, s))"

text \<open>\<open>try: m except <catches>: handler\<close>.\<close>

definition try_except ::
  "('a, 's) result \<Rightarrow> (py_exception \<Rightarrow> bool) \<Rightarrow> (py_exception \<Rightarrow> 's \<Rightarrow> ('a, 's) result) \<Rightarrow> ('a, 's) result" where
  "try_except m catches handler =
     (case m of
        Some (Raised e, s) \<Rightarrow> if catches e then handler e s else Some (Raised e, s)
      | r \<Rightarrow> r)"

section \<open>SerialTransport\<close>

text \<open>
  What the serial library does is given by the world: whether the \<open>k\<close>-th call of
  \<open>serial.Serial(...)\<close> and the \<open>k\<close>-th call of \<open>write\<close> succeed (they raise
  \<open>SerialException\<close> otherwise), what the \<open>k\<close>-th \<open>readline\<close> returns (\<open>None\<close>: it
  raises \<open>SerialException\<close>), and the library's \<open>bytes.decode("utf-8", errors="ignore")\<close>.
\<close>

record world =
  open_ok :: "nat \<Rightarrow> bool"
  write_ok :: "nat \<Rightarrow> bool"
  readline_result :: "nat \<Rightarrow> string option"
  decode :: "string \<Rightarrow> string"

datatype serial_port = Serial (is_open: bool)

text \<open>
  The transport object: \<open>self.serial\<close>, and \<open>self._lock\<close> (a \<open>threading.Lock\<close>, which is
  not reentrant) as the flag whether the running thread holds it. The counters and the
  wire record what has been done to the channel: calls of \<open>serial.Serial\<close>, of \<open>write\<close>
  and of \<open>readline\<close>, and the payloads written. Logging and sleeping are left out.
\<close>

record serial_transport =
  serial :: "serial_port option"
  lock_held :: bool
  opens :: nat
  writes :: nat
  reads :: nat
  wire :: "string list"

text \<open>
  \<open>with self._lock: body\<close>. Acquiring a lock that the thread holds already never
  returns; leaving the block, by return or by exception, releases the lock.
\<close>

definition with_lock ::
  "(serial_transport \<Rightarrow> ('a, serial_transport) result) \<Rightarrow> serial_transport \<Rightarrow> ('a, serial_transport) result" where
  "with_lock body st =
     (if lock_held st then Some (Blocked, st)
      else (case body (st\<lparr>lock_held := True\<rparr>) of
              None \<Rightarrow> None
            | Some (Blocked, s) \<Rightarrow> Some (Blocked, s)
            | Some (r, s) \<Rightarrow> Some (r, s\<lparr>lock_held := False\<rparr>)))"

text \<open>\<open>serial.Serial(self.port_name, self.baud, timeout=0.2)\<close>.\<close>

definition serial_open :: "world \<Rightarrow> serial_transport \<Rightarrow> (serial_port, serial_transport) result" where
  "serial_open w st =
     (if open_ok w (opens st) then Some (Returned (Serial True), st\<lparr>opens := Suc (opens st)\<rparr>)
      else Some (Raised SerialException, st\<lparr>opens := Suc (opens st)\<rparr>))"

text \<open>\<open>ser.write(payload)\<close>.\<close>

definition serial_write :: "world \<Rightarrow> string \<Rightarrow> serial_transport \<Rightarrow> (unit, serial_transport) result" where
  "serial_write w payload st =
     (if write_ok w (writes st)
      then Some (Returned (), st\<lparr>writes := Suc (writes st), wire := wire st @ [payload]\<rparr>)
      else Some (Raised SerialException, st\<lparr>writes := Suc (writes st)\<rparr>))"

text \<open>
  \<open>send_line\<close>, \<open>_connect_with_retry\<close> and \<open>_require_serial\<close> call each other, and the
  loop of \<open>_connect_with_retry\<close> has no bound: each call takes one unit of fuel.
\<close>

fun send_line :: "nat \<Rightarrow> world \<Rightarrow> string \<Rightarrow> serial_transport \<Rightarrow> (unit, serial_transport) result"
and connect_with_retry :: "nat \<Rightarrow> world \<Rightarrow> serial_transport \<Rightarrow> (unit, serial_transport) result"
and require_serial :: "nat \<Rightarrow> world \<Rightarrow> serial_transport \<Rightarrow> (serial_port option, serial_transport) result"
where
  "send_line 0 w line st = None"
| "send_line (Suc n) w line st =
     (let payload = strip line @ [CHR 0x0A]
      in with_lock (\<lambda>s.
           try_except
             (and_then (require_serial n w s) (\<lambda>ser. serial_write w payload))
             (\<lambda>e. e = SerialException)
             (\<lambda>e s1.
                and_then (connect_with_retry n w (s1\<lparr>serial := None\<rparr>)) (\<lambda>_ s2.
                and_then (require_serial n w s2) (\<lambda>ser. serial_write w payload)))) st)"
| "connect_with_retry 0 w st = None"
| "connect_with_retry (Suc n) w st =
     (case serial st of
        Some p \<Rightarrow> Some (Returned (), st)
      | None \<Rightarrow>
          and_then
            (try_except
               (and_then (serial_open w st) (\<lambda>port s1.
                  send_line n w ''HELLO|PC'' (s1\<lparr>serial := Some port\<rparr>)))
               (\<lambda>e. e = SerialException)
               (\<lambda>e s1. Some (Returned (), s1)))
            (\<lambda>_ s2. connect_with_retry n w s2))"
| "require_serial 0 w st = None"
| "require_serial (Suc n) w st =
     (if (case serial st of None \<Rightarrow> True | Some p \<Rightarrow> \<not> is_open p)
      then and_then (connect_with_retry n w (st\<lparr>serial := None\<rparr>))
             (\<lambda>_ s. Some (Returned (serial s), s))
      else Some (Returned (serial st), st))"

text \<open>\<open>SerialTransport.read_line\<close>: it returns a \<open>str\<close>, never \<open>None\<close>.\<close>

definition read_line :: "nat \<Rightarrow> world \<Rightarrow> serial_transport \<Rightarrow> (string option, serial_transport) result" where
  "read_line n w st =
     and_then (require_serial n w st) (\<lambda>ser s.
       (case readline_result w (reads s) of
          None \<Rightarrow> Some (Returned (Some ''''), s\<lparr>reads := Suc (reads s), serial := None\<rparr>)
        | Some data \<Rightarrow>
            (if data = [] then Some (Returned (Some ''''), s\<lparr>reads := Suc (reads s)\<rparr>)
             else Some (Returned (Some (strip (decode w data))), s\<lparr>reads := Suc (reads s)\<rparr>))))"

text \<open>\<open>SerialTransport.close\<close>.\<close>

definition close :: "serial_transport \<Rightarrow> serial_transport" where
  "close st =
     (case serial st of
        None \<Rightarrow> st
      | Some p \<Rightarrow> if is_open p then st\<lparr>serial := Some (Serial False)\<rparr> else st)"

text \<open>\<open>TransportBase.send_line\<close>: the abstract method.\<close>

definition base_send_line :: "string \<Rightarrow> 't \<Rightarrow> (unit, 't) result" where
  "base_send_line line t = Some (Raised NotImplementedError, t)"

text \<open>
  \<open>SimulationTransport.send_line\<close>: takes the lock and logs the line. The state of
  the transport is the flag whether the running thread holds the lock.
\<close>

definition sim_send_line :: "string \<Rightarrow> bool \<Rightarrow> (unit, bool) result" where
  "sim_send_line line held = (if held then Some (Blocked, held) else Some (Returned (), held))"

section \<open>ButtonDriver\<close>

text \<open>
  The driver works with any transport: \<open>send\<close> is the transport's \<open>send_line\<close>, on a
  transport state of type \<open>'t\<close>. The environment records what the driver did: the lines
  it handed to \<open>transport.send_line\<close>, the commands it handed to \<open>subprocess.Popen\<close>,
  and the timer threads it started, each as the button id and the duration in
  milliseconds (the thread runs \<open>_delayed_led_off\<close> with the delay \<open>duration / 1000.0\<close>).
\<close>

type_synonym 't send_fn = "string \<Rightarrow> 't \<Rightarrow> (unit, 't) result"

record 't env =
  transport :: 't
  sent :: "string list"
  spawned :: "string list list"
  timers :: "(string \<times> int) list"

record button_driver =
  programs :: "string \<rightharpoonup> string list"
  success_flash_ms :: int
  error_flash_ms :: int

text \<open>\<open>ButtonDriver(programs, transport)\<close> with the default durations.\<close>

definition ButtonDriver :: "(string \<rightharpoonup> string list) \<Rightarrow> button_driver" where
  "ButtonDriver progs = \<lparr>programs = progs, success_flash_ms = 1200, error_flash_ms = 2000\<rparr>"

text \<open>\<open>self.transport.send_line(command)\<close>.\<close>

definition transport_send_line :: "'t send_fn \<Rightarrow> string \<Rightarrow> 't env \<Rightarrow> (unit, 't env) result" where
  "transport_send_line send line e =
     (case send line (transport e) of
        None \<Rightarrow> None
      | Some (r, t) \<Rightarrow> Some (r, e\<lparr>transport := t, sent := sent e @ [line]\<rparr>))"

definition send_led :: "'t send_fn \<Rightarrow> led_id \<Rightarrow> string \<Rightarrow> int option \<Rightarrow> 't env \<Rightarrow> (unit, 't env) result" where
  "send_led send led mode argument e = transport_send_line send (led_command led mode argument) e"

text \<open>\<open>period = 180 if success else 80\<close>.\<close>

definition blink_period :: "bool \<Rightarrow> int" where
  "blink_period success = (if success then 180 else 80)"

text \<open>
  \<open>duration / 1000.0\<close> turns the integer into a float first, rounding to the nearest
  double; an integer that rounds beyond the largest double raises \<open>OverflowError\<close>.
  The largest double is \<open>2^1024 - 2^971\<close>, and from \<open>2^1024 - 2^970\<close> on the
  rounding goes beyond it.
\<close>

definition float_overflow :: "int \<Rightarrow> bool" where
  "float_overflow n = (\<bar>n\<bar> \<ge> 2 ^ 1024 - 2 ^ 970)"

text \<open>
  \<open>threading.Thread(target=self._delayed_led_off, args=(button_id, duration / 1000.0),
  daemon=True).start()\<close>: the arguments are evaluated first, in the calling thread, so
  the division raises there and no thread is started. The thread that is started is
  recorded with the duration in milliseconds from which its delay was computed.
  Starting a thread is taken to succeed.
\<close>

definition start_timer :: "string \<Rightarrow> int \<Rightarrow> 't env \<Rightarrow> (unit, 't env) result" where
  "start_timer button_id duration e =
     (if float_overflow duration then Some (Raised OverflowError, e)
      else Some (Returned (), e\<lparr>timers := timers e @ [(button_id, duration)]\<rparr>))"

definition flash_led :: "'t send_fn \<Rightarrow> button_driver \<Rightarrow> string \<Rightarrow> bool \<Rightarrow> 't env \<Rightarrow> (unit, 't env) result" where
  "flash_led send drv button_id success e =
     (let period = blink_period success;
          duration = (if success then success_flash_ms drv else error_flash_ms drv)
      in and_then (send_led send (IdStr button_id) ''BLINK'' (Some period) e) (\<lambda>_.
           start_timer button_id duration))"

text \<open>
  \<open>time.sleep(delay)\<close> for the delay computed from \<open>duration\<close> milliseconds. The platform
  decides whether the delay is within the range of its timestamps (\<open>sleep_range\<close>; the
  call raises \<open>OverflowError\<close> when it is not); a delay within the range that is negative
  raises \<open>ValueError\<close>. The delay is negative exactly when the duration is.
\<close>

definition time_sleep :: "(int \<Rightarrow> bool) \<Rightarrow> int \<Rightarrow> 's \<Rightarrow> (unit, 's) result" where
  "time_sleep sleep_range duration s =
     (if \<not> sleep_range duration then Some (Raised OverflowError, s)
      else if duration < 0 then Some (Raised ValueError, s)
      else Some (Returned (), s))"

text \<open>
  \<open>_delayed_led_off(button_id, delay)\<close>, the task of the timer thread: it sleeps, then
  sends the OFF command. An exception ends the thread.
\<close>

definition delayed_led_off ::
  "(int \<Rightarrow> bool) \<Rightarrow> 't send_fn \<Rightarrow> string \<Rightarrow> int \<Rightarrow> 't env \<Rightarrow> (unit, 't env) result" where
  "delayed_led_off sleep_range send button_id duration e =
     and_then (time_sleep sleep_range duration e) (\<lambda>_.
       send_led send (IdStr button_id) ''OFF'' None)"

text \<open>
  \<open>subprocess.Popen(command)\<close>: the operating system decides (\<open>popen command = None\<close>:
  the process was started; \<open>Some ex\<close>: the call raised \<open>ex\<close>).
\<close>

definition Popen :: "(string list \<Rightarrow> py_exception option) \<Rightarrow> string list \<Rightarrow> 't env \<Rightarrow> (unit, 't env) result" where
  "Popen popen command e =
     (let e' = e\<lparr>spawned := spawned e @ [command]\<rparr>
      in case popen command of
           None \<Rightarrow> Some (Returned (), e')
         | Some ex \<Rightarrow> Some (Raised ex, e'))"

text \<open>
  \<open>launch_program\<close>: both handlers, \<open>except FileNotFoundError\<close> and \<open>except Exception\<close>,
  flash the failure pattern; they differ in the log message only.
\<close>

definition launch_program ::
  "'t send_fn \<Rightarrow> (string list \<Rightarrow> py_exception option) \<Rightarrow> button_driver \<Rightarrow> string \<Rightarrow> 't env \<Rightarrow> (unit, 't env) result" where
  "launch_program send popen drv button_id e =
     (case programs drv button_id of
        None \<Rightarrow> flash_led send drv button_id False e
      | Some command \<Rightarrow>
          try_except
            (and_then (Popen popen command e) (\<lambda>_. flash_led send drv button_id True))
            (\<lambda>ex. ex = FileNotFoundError \<or> is_Exception ex)
            (\<lambda>ex. flash_led send drv button_id False))"

definition handle_line ::
  "'t send_fn \<Rightarrow> (string list \<Rightarrow> py_exception option) \<Rightarrow> button_driver \<Rightarrow> string \<Rightarrow> 't env \<Rightarrow> (unit, 't env) result" where
  "handle_line send popen drv line e =
     (if line = [] then Some (Returned (), e)
      else
        let parts = split CHR ''|'' line;
            topic = upper (parts ! 0)
        in if topic = ''BTN'' \<and> length parts \<ge> 3 then
             (let button_id = parts ! 1;
                  event = upper (parts ! 2)
              in if event = ''DOWN'' then launch_program send popen drv button_id e
                 else Some (Returned (), e))
           else if topic = ''READY'' then Some (Returned (), e)
           else Some (Returned (), e))"

section \<open>Program entries\<close>

text \<open>
  A program entry is a value that \<open>json.loads\<close> produced: a dict is an association list
  with one pair for each key, read with \<open>map_of\<close>. Numbers with a fraction are left out.
\<close>

datatype pyval =
  PNone | PBool bool | PInt int | PStr string | PList "pyval list" | PDict "(string \<times> pyval) list"

text \<open>\<open>isinstance(v, Sequence)\<close>: a string is a sequence too.\<close>

fun is_Sequence :: "pyval \<Rightarrow> bool" where
  "is_Sequence (PStr s) = True"
| "is_Sequence (PList xs) = True"
| "is_Sequence _ = False"

text \<open>The elements that a \<open>for\<close> over a sequence visits: a string yields its characters.\<close>

fun iterate :: "pyval \<Rightarrow> pyval list" where
  "iterate (PStr s) = map (\<lambda>c. PStr [c]) s"
| "iterate (PList xs) = xs"
| "iterate _ = []"

text \<open>The truth value of a value, as \<open>not command\<close> takes it.\<close>

fun truthy :: "pyval \<Rightarrow> bool" where
  "truthy PNone = False"
| "truthy (PBool b) = b"
| "truthy (PInt i) = (i \<noteq> 0)"
| "truthy (PStr s) = (s \<noteq> [])"
| "truthy (PList xs) = (xs \<noteq> [])"
| "truthy (PDict d) = (d \<noteq> [])"

text \<open>
  \<open>str(v)\<close>: a string is returned as it is, an integer in decimal; the text of a list or
  a dict is its \<open>repr\<close>, which the interpreter supplies.
\<close>

fun py_str :: "(pyval \<Rightarrow> string) \<Rightarrow> pyval \<Rightarrow> string" where
  "py_str repr (PStr s) = s"
| "py_str repr (PInt i) = str_int i"
| "py_str repr (PBool b) = (if b then ''True'' else ''False'')"
| "py_str repr PNone = ''None''"
| "py_str repr v = repr v"

text \<open>\<open>entry.get(key, default)\<close> on the pairs of a dict.\<close>

definition dict_get :: "(string \<times> pyval) list \<Rightarrow> string \<Rightarrow> pyval \<Rightarrow> pyval" where
  "dict_get d key dflt = (case map_of d key of None \<Rightarrow> dflt | Some v \<Rightarrow> v)"

text \<open>
  \<open>normalize_program\<close>: the equations are the \<open>isinstance\<close> tests in the order of the
  source; \<open>str\<close> comes before \<open>Sequence\<close>, so a string entry never reaches the second one.
\<close>

fun normalize_program :: "(pyval \<Rightarrow> string) \<Rightarrow> pyval \<Rightarrow> py_exception + string list" where
  "normalize_program repr (PStr s) = Inr [s]"
| "normalize_program repr (PList xs) = Inr (map (py_str repr) xs)"
| "normalize_program repr (PDict d) =
     (let command = dict_get d ''command'' PNone
      in if \<not> truthy command then Inl ValueError
         else
           let args = dict_get d ''args'' (PList []);
               tokens = [py_str repr command]
           in if is_Sequence args then Inr (tokens @ map (py_str repr) (iterate args))
              else Inr (tokens @ [py_str repr args]))"
| "normalize_program repr v = Inl TypeError"

section \<open>Concrete inputs\<close>

text \<open>A panel with one mapped button, its programs as \<open>load_programs\<close> would return them.\<close>

definition panel_driver :: button_driver where
  "panel_driver = ButtonDriver [''1'' \<mapsto> [''notepad.exe'']]"

text \<open>The same panel with another duration, in milliseconds, for both flashes.\<close>

definition panel_with :: "int \<Rightarrow> button_driver" where
  "panel_with ms =
     \<lparr>programs = [''1'' \<mapsto> [''notepad.exe'']], success_flash_ms = ms, error_flash_ms = ms\<rparr>"

text \<open>A duration that no float holds.\<close>

definition huge :: int where
  "huge = 2 ^ 1024"

text \<open>
  A platform whose \<open>time.sleep\<close> takes every delay of less than \<open>9 * 10^9\<close> seconds (with
  timestamps of 64 bits in nanoseconds the bound is a little larger).
\<close>

definition platform_range :: "int \<Rightarrow> bool" where
  "platform_range ms = (\<bar>ms\<bar> < 9000000000000)"

text \<open>Fresh environments: over a \<open>SimulationTransport\<close>, and over a bare \<open>TransportBase\<close>.\<close>

definition sim_env :: "bool env" where
  "sim_env = \<lparr>transport = False, sent = [], spawned = [], timers = []\<rparr>"

definition base_env :: "unit env" where
  "base_env = \<lparr>transport = (), sent = [], spawned = [], timers = []\<rparr>"

text \<open>An operating system that starts every program, and one that finds no executable.\<close>

definition popen_ok :: "string list \<Rightarrow> py_exception option" where
  "popen_ok command = None"

definition popen_missing :: "string list \<Rightarrow> py_exception option" where
  "popen_missing command = Some FileNotFoundError"

text \<open>
  A serial transport after its constructor: the port is open, the handshake is on the
  wire, nobody holds the lock.
\<close>

definition connected :: serial_transport where
  "connected =
     \<lparr>serial = Some (Serial True), lock_held = False, opens = 1, writes = 1, reads = 0,
      wire = [''HELLO|PC'' @ [CHR 0x0A]]\<rparr>"

text \<open>
  A world where the port opens each time and only one write fails, the first one after the
  handshake; and a world where every write succeeds, the first \<open>readline\<close> fails and the
  later ones deliver a button frame.
\<close>

definition glitch_write_ok :: "nat \<Rightarrow> bool" where
  "glitch_write_ok k = (k \<noteq> 1)"

definition always :: "nat \<Rightarrow> bool" where
  "always k = True"

definition glitch_readline :: "nat \<Rightarrow> string option" where
  "glitch_readline k = (if k = 0 then None else Some (''BTN|1|DOWN'' @ [CHR 0x0D, CHR 0x0A]))"

definition ascii_decode :: "string \<Rightarrow> string" where
  "ascii_decode data = data"

definition write_glitch :: world where
  "write_glitch =
     \<lparr>open_ok = always, write_ok = glitch_write_ok, readline_result = glitch_readline,
      decode = ascii_decode\<rparr>"

definition read_glitch :: world where
  "read_glitch =
     \<lparr>open_ok = always, write_ok = always, readline_result = glitch_readline,
      decode = ascii_decode\<rparr>"

text \<open>A fresh environment over that serial transport.\<close>

definition serial_env :: "serial_transport env" where
  "serial_env = \<lparr>transport = connected, sent = [], spawned = [], timers = []\<rparr>"

text \<open>A \<open>repr\<close> for the values whose text no statement below depends on.\<close>

definition opaque_repr :: "pyval \<Rightarrow> string" where
  "opaque_repr v = ''...''"

section \<open>Facts about the string functions\<close>

lemma split_not_Nil: "split c s \<noteq> []"
  by (induction s) (auto split: list.splits)

lemma length_split: "length (split c s) = Suc (length (filter (\<lambda>x. x = c) s))"
  by (induction s) (auto split: list.splits simp: split_not_Nil)

lemma split_nth0: "split c s ! 0 = takeWhile (\<lambda>x. x \<noteq> c) s"
  by (induction s) (auto split: list.splits simp: split_not_Nil)

lemma split_no_sep: "c \<notin> set p \<Longrightarrow> split c p = [p]"
  by (induction p) auto

lemma split_append_sep: "c \<notin> set p \<Longrightarrow> split c (p @ c # rest) = p # split c rest"
  by (induction p) (auto split: list.splits)

lemma upper_char_bar: "upper_char CHR ''|'' = CHR ''|''"
  by (simp add: upper_char_def)

lemma upper_no_bar:
  assumes "upper t = u" and "CHR ''|'' \<notin> set u"
  shows "CHR ''|'' \<notin> set t"
proof
  assume "CHR ''|'' \<in> set t"
  then have "upper_char CHR ''|'' \<in> set (upper t)"
    unfolding upper_def by (simp add: image_iff) blast
  with assms show False
    by (simp add: upper_char_bar)
qed

lemma split_three:
  assumes "CHR ''|'' \<notin> set t" "CHR ''|'' \<notin> set b" "CHR ''|'' \<notin> set a"
  shows "split CHR ''|'' (t @ ''|'' @ b @ ''|'' @ a) = [t, b, a]"
  using assms by (simp add: split_append_sep split_no_sep)




lemma str_int_180: "str_int 180 = ''180''"
  by (simp add: str_int_def digits.simps digit_char_def)

lemma str_int_80: "str_int 80 = ''80''"
  by (simp add: str_int_def digits.simps digit_char_def)

section \<open>Facts about the driver\<close>

lemmas flash_defs =
  flash_led_def send_led_def transport_send_line_def and_then_def start_timer_def Let_def

lemmas input_defs =
  sim_send_line_def base_send_line_def sim_env_def base_env_def panel_driver_def ButtonDriver_def
  popen_ok_def popen_missing_def panel_with_def

lemma float_fits: "\<bar>n\<bar> < 2 ^ 1023 \<Longrightarrow> \<not> float_overflow n"
proof -
  assume n: "\<bar>n\<bar> < 2 ^ 1023"
  have "(2::int) ^ 970 \<le> 2 ^ 1023"
    by (rule power_increasing) simp_all
  moreover have "(2::int) ^ 1024 = 2 ^ 1023 + 2 ^ 1023"
    by simp
  ultimately have "(2::int) ^ 1023 \<le> 2 ^ 1024 - 2 ^ 970"
    by linarith
  with n show ?thesis
    unfolding float_overflow_def by linarith
qed

lemma small_fits: "\<bar>n\<bar> < 2 ^ 64 \<Longrightarrow> \<not> float_overflow n"
proof (rule float_fits)
  assume "\<bar>n\<bar> < 2 ^ 64"
  moreover have "(2::int) ^ 64 \<le> 2 ^ 1023"
    by (rule power_increasing) simp_all
  ultimately show "\<bar>n\<bar> < 2 ^ 1023"
    by linarith
qed

lemma float_overflow_huge: "float_overflow huge"
proof -
  have "(0::int) < 2 ^ 970" by simp
  moreover have "(0::int) < 2 ^ 1024" by simp
  ultimately show ?thesis
    unfolding float_overflow_def huge_def by linarith
qed

lemma flash_led_sent:
  assumes "flash_led send drv b s e = Some (r, e')"
  shows "sent e' = sent e @ [led_command (IdStr b) ''BLINK'' (Some (blink_period s))]"
  using assms
  by (auto simp: flash_defs split: option.splits prod.splits outcome.splits if_splits)

lemma flash_led_returned:
  assumes "send (led_command (IdStr b) ''BLINK'' (Some (blink_period s))) (transport e) = Some (Returned (), tr)"
    and "\<not> float_overflow (if s then success_flash_ms drv else error_flash_ms drv)"
  shows "flash_led send drv b s e =
           Some (Returned (),
                 e\<lparr>transport := tr,
                   sent := sent e @ [led_command (IdStr b) ''BLINK'' (Some (blink_period s))],
                   timers := timers e @ [(b, if s then success_flash_ms drv else error_flash_ms drv)]\<rparr>)"
  using assms
  by (simp add: flash_defs)

lemma flash_led_overflow:
  assumes "send (led_command (IdStr b) ''BLINK'' (Some (blink_period s))) (transport e) = Some (Returned (), tr)"
    and "float_overflow (if s then success_flash_ms drv else error_flash_ms drv)"
  shows "flash_led send drv b s e =
           Some (Raised OverflowError,
                 e\<lparr>transport := tr,
                   sent := sent e @ [led_command (IdStr b) ''BLINK'' (Some (blink_period s))]\<rparr>)"
  using assms
  by (simp add: flash_defs)

lemma flash_led_blocked:
  assumes "send (led_command (IdStr b) ''BLINK'' (Some (blink_period s))) (transport e) = Some (Blocked, tr)"
  shows "flash_led send drv b s e =
           Some (Blocked,
                 e\<lparr>transport := tr,
                   sent := sent e @ [led_command (IdStr b) ''BLINK'' (Some (blink_period s))]\<rparr>)"
  using assms
  by (simp add: flash_defs)

lemma blink_line: "led_command (IdStr b) ''BLINK'' (Some (blink_period s)) = ''LED|'' @ b @ ''|BLINK|'' @ (if s then ''180'' else ''80'')"
  by (simp add: led_command_def blink_period_def str_int_180 str_int_80)

lemma handle_line_down:
  assumes "line = t @ ''|'' @ bid @ ''|'' @ a" and "upper t = ''BTN''" and "upper a = ''DOWN''"
    and "CHR ''|'' \<notin> set bid"
  shows "handle_line send popen drv line e = launch_program send popen drv bid e"
proof -
  have t: "CHR ''|'' \<notin> set t" using assms(2) by (rule upper_no_bar) simp
  have a: "CHR ''|'' \<notin> set a" using assms(3) by (rule upper_no_bar) simp
  have parts: "split CHR ''|'' line = [t, bid, a]"
    unfolding assms(1) using t assms(4) a by (rule split_three)
  have "line \<noteq> []" using assms(1) by simp
  then show ?thesis
    using assms(2,3) by (simp add: handle_line_def parts)
qed

lemma handle_line_button_1:
  "handle_line send popen drv ''BTN|1|DOWN'' e = launch_program send popen drv ''1'' e"
proof -
  have l: "''BTN|1|DOWN'' = ''BTN'' @ ''|'' @ ''1'' @ ''|'' @ ''DOWN''" by simp
  have u: "upper ''BTN'' = ''BTN''" "upper ''DOWN'' = ''DOWN''"
    by (simp_all add: upper_def upper_char_def)
  have b: "CHR ''|'' \<notin> set ''1''" by simp
  from l u b show ?thesis by (rule handle_line_down)
qed

lemma handle_line_button_9:
  "handle_line send popen drv ''BTN|9|DOWN'' e = launch_program send popen drv ''9'' e"
proof -
  have l: "''BTN|9|DOWN'' = ''BTN'' @ ''|'' @ ''9'' @ ''|'' @ ''DOWN''" by simp
  have u: "upper ''BTN'' = ''BTN''" "upper ''DOWN'' = ''DOWN''"
    by (simp_all add: upper_def upper_char_def)
  have b: "CHR ''|'' \<notin> set ''9''" by simp
  from l u b show ?thesis by (rule handle_line_down)
qed

lemma launch_program_mapped_ok:
  assumes "programs drv bid = Some command" and "popen command = None"
  shows "launch_program send popen drv bid e
         = try_except (flash_led send drv bid True (e\<lparr>spawned := spawned e @ [command]\<rparr>))
             (\<lambda>ex. ex = FileNotFoundError \<or> is_Exception ex)
             (\<lambda>ex. flash_led send drv bid False)"
  using assms by (simp add: launch_program_def Popen_def and_then_def)

lemma delayed_led_off_sends:
  assumes "sleep_range duration" and "0 \<le> duration"
  shows "delayed_led_off sleep_range send bid duration e
           = transport_send_line send (''LED|'' @ bid @ ''|OFF'') e"
  using assms
  by (simp add: delayed_led_off_def time_sleep_def and_then_def send_led_def led_command_def)

lemma delayed_led_off_raises:
  "delayed_led_off sleep_range send bid duration e
     = (if \<not> sleep_range duration then Some (Raised OverflowError, e)
        else if duration < 0 then Some (Raised ValueError, e)
        else transport_send_line send (''LED|'' @ bid @ ''|OFF'') e)"
  by (simp add: delayed_led_off_def time_sleep_def and_then_def send_led_def led_command_def)

section \<open>Facts about the serial transport\<close>

lemma send_line_locked:
  "lock_held st \<Longrightarrow> send_line (Suc n) w line st = Some (Blocked, st)"
  by (simp add: with_lock_def)

lemma connect_locked:
  assumes "lock_held st" and "serial st = None"
  shows "connect_with_retry n w st = None
         \<or> (\<exists>s. connect_with_retry n w st = Some (Blocked, s) \<and> wire s = wire st \<and> writes s = writes st)"
  using assms
proof (induction n arbitrary: st)
  case 0
  then show ?case by simp
next
  case (Suc n)
  show ?case
  proof (cases "open_ok w (opens st)")
    case True
    show ?thesis
    proof (cases n)
      case 0
      with True Suc.prems show ?thesis
        by (simp add: serial_open_def and_then_def try_except_def)
    next
      case (Suc m)
      with True Suc.prems show ?thesis
        by (simp add: serial_open_def and_then_def try_except_def with_lock_def)
    qed
  next
    case False
    let ?s1 = "st\<lparr>opens := Suc (opens st)\<rparr>"
    have step: "connect_with_retry (Suc n) w st = connect_with_retry n w ?s1"
      using False Suc.prems by (simp add: serial_open_def and_then_def try_except_def)
    have "lock_held ?s1" "serial ?s1 = None" using Suc.prems by simp_all
    from Suc.IH [OF this] show ?thesis unfolding step by simp
  qed
qed

lemma send_line_write_failure:
  assumes "\<not> lock_held st" and "serial st = Some (Serial True)" and "\<not> write_ok w (writes st)"
  shows "send_line n w line st = None
         \<or> (\<exists>s. send_line n w line st = Some (Blocked, s) \<and> wire s = wire st)"
proof (cases n)
  case 0
  then show ?thesis by simp
next
  case n: (Suc m)
  show ?thesis
  proof (cases m)
    case 0
    with n assms show ?thesis by (simp add: with_lock_def and_then_def try_except_def)
  next
    case (Suc k)
    let ?s = "st\<lparr>lock_held := True, writes := Suc (writes st), serial := None\<rparr>"
    have body: "send_line n w line st =
      with_lock (\<lambda>s. and_then (connect_with_retry m w (s\<lparr>writes := Suc (writes s), serial := None\<rparr>))
         (\<lambda>_ s2. and_then (require_serial m w s2) (\<lambda>ser. serial_write w (strip line @ [CHR 0x0A])))) st"
      using n Suc assms
      by (simp add: with_lock_def and_then_def try_except_def serial_write_def)
    have "lock_held ?s" "serial ?s = None" by simp_all
    from connect_locked [OF this, of m w] show ?thesis
      unfolding body using assms(1)
      by (auto simp: with_lock_def and_then_def)
  qed
qed

lemmas world_defs =
  write_glitch_def read_glitch_def glitch_write_ok_def always_def glitch_readline_def
  ascii_decode_def connected_def

lemma three: "3 = Suc (Suc (Suc 0))"
  by simp

lemma four: "4 = Suc (Suc (Suc (Suc 0)))"
  by simp

text \<open>
  What \<open>read_line\<close> itself does when \<open>readline\<close> raises (after \<open>_require_serial\<close> has
  returned): it returns the empty string, not \<open>None\<close>, raises nothing, sets
  \<open>self.serial = None\<close> and counts the read; no port is opened and nothing is written in
  this call.
\<close>

lemma read_line_failure:
  assumes "require_serial n w st = Some (Returned ser, s)"
    and "readline_result w (reads s) = None"
  shows "read_line n w st = Some (Returned (Some ''''), s\<lparr>reads := Suc (reads s), serial := None\<rparr>)"
  using assms by (simp add: read_line_def and_then_def)

text \<open>
  A \<open>send_line\<close> that finds the transport disconnected, the lock free, reconnects inside
  \<open>with self._lock\<close>: with any fuel it has neither returned nor raised, and nothing has
  been written.
\<close>

lemma send_line_disconnected:
  assumes "\<not> lock_held st" and "serial st = None"
  shows "send_line n w line st = None
         \<or> (\<exists>s. send_line n w line st = Some (Blocked, s) \<and> wire s = wire st)"
proof (cases n)
  case 0
  then show ?thesis by simp
next
  case n: (Suc m)
  show ?thesis
  proof (cases m)
    case 0
    with n assms show ?thesis by (simp add: with_lock_def and_then_def try_except_def)
  next
    case (Suc k)
    let ?s = "st\<lparr>lock_held := True, serial := None\<rparr>"
    have "lock_held ?s" "serial ?s = None" by simp_all
    from connect_locked [OF this, of k w] show ?thesis
      using n Suc assms
      by (auto simp: with_lock_def and_then_def try_except_def)
  qed
qed

section \<open>The line of an LED command\<close>



section \<open>Normalising program entries\<close>

text \<open>
  Claim C9. For every string entry \<open>s\<close>, \<open>normalize_program(s)\<close> returns the one-element
  token list \<open>[s]\<close>: the string is not split, whatever blanks it contains.
\<close>

theorem normalize_program_str: "normalize_program repr (PStr s) = Inr [s]"
  by simp

text \<open>
  Claim C10, as stated, at the entry \<open>{"args": "-c"}\<close>: a dict whose \<open>args\<close> is a string,
  but without a command. The guard on the command raises \<open>ValueError\<close> before the
  arguments are looked at, and no token is produced.
\<close>

theorem normalize_program_no_command_counterexample:
  "normalize_program opaque_repr (PDict [(''args'', PStr ''-c'')]) = Inl ValueError"
  by (simp add: dict_get_def)

text \<open>
  Claim C10, amended. For every dict entry that has a non-empty command and whose \<open>args\<close>
  value is a string \<open>s\<close>, \<open>normalize_program\<close> returns the command followed by each
  character of \<open>s\<close> as a token of its own.
\<close>

theorem normalize_program_str_args:
  assumes "map_of d ''command'' = Some c" and "truthy c" and "map_of d ''args'' = Some (PStr s)"
  shows "normalize_program repr (PDict d) = Inr (py_str repr c # map (\<lambda>ch. [ch]) s)"
  using assms by (simp add: dict_get_def comp_def)

text \<open>The entry \<open>{"command": "bash", "args": "-c"}\<close> yields \<open>["bash", "-", "c"]\<close>.\<close>

theorem normalize_program_str_args_witness:
  "map_of [(''command'', PStr ''bash''), (''args'', PStr ''-c'')] ''command'' = Some (PStr ''bash'')
   \<and> truthy (PStr ''bash'')
   \<and> map_of [(''command'', PStr ''bash''), (''args'', PStr ''-c'')] ''args'' = Some (PStr ''-c'')
   \<and> normalize_program opaque_repr (PDict [(''command'', PStr ''bash''), (''args'', PStr ''-c'')])
       = Inr [''bash'', ''-'', ''c'']"
  using normalize_program_str_args [of "[(''command'', PStr ''bash''), (''args'', PStr ''-c'')]"
      "PStr ''bash''" "''-c''" opaque_repr]
  by simp

section \<open>The flash patterns\<close>

text \<open>
  Claim C1, as stated, at button \<open>1\<close> over a \<open>SimulationTransport\<close>: the success flash
  sends the period 180 and the failure flash the period 80, so the success period is not
  smaller than the failure period.
\<close>

theorem flash_led_periods_counterexample:
  "flash_led sim_send_line panel_driver ''1'' True sim_env
     = Some (Returned (), \<lparr>transport = False, sent = [''LED|1|BLINK|180''], spawned = [], timers = [(''1'', 1200)]\<rparr>)
   \<and> flash_led sim_send_line panel_driver ''1'' False sim_env
     = Some (Returned (), \<lparr>transport = False, sent = [''LED|1|BLINK|80''], spawned = [], timers = [(''1'', 2000)]\<rparr>)
   \<and> \<not> blink_period True < blink_period False"
  by (simp add: flash_defs input_defs led_command_def blink_period_def str_int_180 str_int_80 small_fits)

text \<open>
  Claim C1, amended. For every button id, \<open>flash_led(button_id, success=True)\<close> hands the
  line \<open>LED|<id>|BLINK|180\<close> to the transport and \<open>flash_led(button_id, success=False)\<close>
  the line \<open>LED|<id>|BLINK|80\<close>: the success period, 180, is strictly larger than the
  failure period, 80 (success blinks slower, failure faster).
\<close>

theorem flash_led_periods:
  assumes "flash_led send drv button_id True e = Some (r1, e1)"
    and "flash_led send drv button_id False e = Some (r2, e2)"
  shows "sent e1 = sent e @ [''LED|'' @ button_id @ ''|BLINK|'' @ str_int 180]
       \<and> sent e2 = sent e @ [''LED|'' @ button_id @ ''|BLINK|'' @ str_int 80]
       \<and> blink_period True = 180 \<and> blink_period False = 80
       \<and> blink_period False < blink_period True"
  using flash_led_sent [OF assms(1)] flash_led_sent [OF assms(2)]
  by (simp add: blink_line str_int_180 str_int_80) (simp add: blink_period_def)

text \<open>Both flashes of button \<open>1\<close> over a \<open>SimulationTransport\<close>.\<close>

theorem flash_led_periods_witness:
  "flash_led sim_send_line panel_driver ''1'' True sim_env
     = Some (Returned (), \<lparr>transport = False, sent = [''LED|1|BLINK|180''], spawned = [], timers = [(''1'', 1200)]\<rparr>)
   \<and> flash_led sim_send_line panel_driver ''1'' False sim_env
     = Some (Returned (), \<lparr>transport = False, sent = [''LED|1|BLINK|80''], spawned = [], timers = [(''1'', 2000)]\<rparr>)
   \<and> blink_period False < blink_period True"
proof -
  have t: "flash_led sim_send_line panel_driver ''1'' True sim_env
     = Some (Returned (), \<lparr>transport = False, sent = [''LED|1|BLINK|180''], spawned = [], timers = [(''1'', 1200)]\<rparr>)"
    by (simp add: flash_defs input_defs blink_line small_fits)
  have f: "flash_led sim_send_line panel_driver ''1'' False sim_env
     = Some (Returned (), \<lparr>transport = False, sent = [''LED|1|BLINK|80''], spawned = [], timers = [(''1'', 2000)]\<rparr>)"
    by (simp add: flash_defs input_defs blink_line small_fits)
  from flash_led_periods [OF t f] t f show ?thesis by simp
qed

section \<open>Dispatch of incoming lines\<close>

text \<open>
  Claim C5. For every non-empty line whose first field (the text before the first bar) is,
  in upper case, neither \<open>BTN\<close> nor \<open>READY\<close>, or is \<open>BTN\<close> while the line has fewer than
  three fields (one more than it has bars), \<open>handle_line\<close> returns normally and leaves
  the environment as it was: no program launched, no line sent, no timer started.
\<close>

theorem handle_line_ignores:
  assumes "line \<noteq> []"
    and "upper (takeWhile (\<lambda>c. c \<noteq> CHR ''|'') line) \<notin> {''BTN'', ''READY''}
         \<or> (upper (takeWhile (\<lambda>c. c \<noteq> CHR ''|'') line) = ''BTN''
            \<and> Suc (length (filter (\<lambda>c. c = CHR ''|'') line)) < 3)"
  shows "handle_line send popen drv line e = Some (Returned (), e)"
  using assms by (auto simp: handle_line_def Let_def split_nth0 length_split)

text \<open>The lines \<open>GARBAGE\<close> (unknown topic) and \<open>btn|1\<close> (two fields).\<close>

theorem handle_line_ignores_witness:
  "''GARBAGE'' \<noteq> []
   \<and> upper (takeWhile (\<lambda>c. c \<noteq> CHR ''|'') ''GARBAGE'') \<notin> {''BTN'', ''READY''}
   \<and> handle_line base_send_line popen_ok panel_driver ''GARBAGE'' base_env = Some (Returned (), base_env)
   \<and> upper (takeWhile (\<lambda>c. c \<noteq> CHR ''|'') ''btn|1'') = ''BTN''
   \<and> Suc (length (filter (\<lambda>c. c = CHR ''|'') ''btn|1'')) < 3
   \<and> handle_line base_send_line popen_ok panel_driver ''btn|1'' base_env = Some (Returned (), base_env)"
proof -
  have g: "upper (takeWhile (\<lambda>c. c \<noteq> CHR ''|'') ''GARBAGE'') \<notin> {''BTN'', ''READY''}"
    by (simp add: upper_def upper_char_def)
  have b: "upper (takeWhile (\<lambda>c. c \<noteq> CHR ''|'') ''btn|1'') = ''BTN''"
    by (simp add: upper_def upper_char_def)
  have n: "Suc (length (filter (\<lambda>c. c = CHR ''|'') ''btn|1'')) < 3"
    by simp
  show ?thesis
    using g b n
      handle_line_ignores [of "''GARBAGE''" base_send_line popen_ok panel_driver base_env]
      handle_line_ignores [of "''btn|1''" base_send_line popen_ok panel_driver base_env]
    by simp
qed

section \<open>Button presses\<close>

text \<open>
  Claim C3, as stated, at the line \<open>BTN|1|DOWN\<close> with button \<open>1\<close> mapped to
  \<open>notepad.exe\<close>. When the operating system finds no such executable, \<open>Popen\<close> raises,
  the handler flashes the failure pattern, and the line sent is the BLINK with period 80
  followed by an OFF after the error duration: no success pattern. Over a transport
  whose \<open>send_line\<close> raises (the \<open>TransportBase\<close> one always does), the success BLINK is
  handed over, the exception is caught by \<open>except Exception\<close>, a failure BLINK is handed
  over as well, its exception leaves the call, and no OFF is scheduled. With durations
  that no float holds, \<open>duration / 1000.0\<close> raises \<open>OverflowError\<close> after the success
  BLINK was sent; the handler sends a failure BLINK too, the second \<open>OverflowError\<close>
  leaves the call, and no timer is started. With a negative duration, or one beyond the
  range of \<open>time.sleep\<close>, the timer is started but its task raises in \<open>time.sleep\<close> and
  never sends the OFF.
\<close>

theorem handle_line_mapped_down_counterexample:
  "programs panel_driver ''1'' = Some [''notepad.exe'']
   \<and> handle_line sim_send_line popen_missing panel_driver ''BTN|1|DOWN'' sim_env
       = Some (Returned (),
               \<lparr>transport = False, sent = [''LED|1|BLINK|80''], spawned = [[''notepad.exe'']],
                timers = [(''1'', 2000)]\<rparr>)
   \<and> handle_line base_send_line popen_ok panel_driver ''BTN|1|DOWN'' base_env
       = Some (Raised NotImplementedError,
               \<lparr>transport = (), sent = [''LED|1|BLINK|180'', ''LED|1|BLINK|80''],
                spawned = [[''notepad.exe'']], timers = []\<rparr>)
   \<and> programs (panel_with huge) ''1'' = Some [''notepad.exe'']
   \<and> handle_line sim_send_line popen_ok (panel_with huge) ''BTN|1|DOWN'' sim_env
       = Some (Raised OverflowError,
               \<lparr>transport = False, sent = [''LED|1|BLINK|180'', ''LED|1|BLINK|80''],
                spawned = [[''notepad.exe'']], timers = []\<rparr>)
   \<and> handle_line sim_send_line popen_ok (panel_with (- 1)) ''BTN|1|DOWN'' sim_env
       = Some (Returned (),
               \<lparr>transport = False, sent = [''LED|1|BLINK|180''], spawned = [[''notepad.exe'']],
                timers = [(''1'', - 1)]\<rparr>)
   \<and> delayed_led_off platform_range sim_send_line ''1'' (- 1) sim_env
       = Some (Raised ValueError, sim_env)
   \<and> handle_line sim_send_line popen_ok (panel_with 10000000000000000) ''BTN|1|DOWN'' sim_env
       = Some (Returned (),
               \<lparr>transport = False, sent = [''LED|1|BLINK|180''], spawned = [[''notepad.exe'']],
                timers = [(''1'', 10000000000000000)]\<rparr>)
   \<and> delayed_led_off platform_range sim_send_line ''1'' 10000000000000000 sim_env
       = Some (Raised OverflowError, sim_env)"
proof -
  have missing: "handle_line sim_send_line popen_missing panel_driver ''BTN|1|DOWN'' sim_env
       = Some (Returned (),
               \<lparr>transport = False, sent = [''LED|1|BLINK|80''], spawned = [[''notepad.exe'']],
                timers = [(''1'', 2000)]\<rparr>)"
    unfolding handle_line_button_1
    by (simp add: launch_program_def Popen_def try_except_def flash_defs input_defs blink_line small_fits)
  have base: "handle_line base_send_line popen_ok panel_driver ''BTN|1|DOWN'' base_env
       = Some (Raised NotImplementedError,
               \<lparr>transport = (), sent = [''LED|1|BLINK|180'', ''LED|1|BLINK|80''],
                spawned = [[''notepad.exe'']], timers = []\<rparr>)"
    unfolding handle_line_button_1
    by (simp add: launch_program_def Popen_def try_except_def flash_defs input_defs blink_line)
  have huge: "handle_line sim_send_line popen_ok (panel_with huge) ''BTN|1|DOWN'' sim_env
       = Some (Raised OverflowError,
               \<lparr>transport = False, sent = [''LED|1|BLINK|180'', ''LED|1|BLINK|80''],
                spawned = [[''notepad.exe'']], timers = []\<rparr>)"
    unfolding handle_line_button_1
    by (simp add: launch_program_def Popen_def try_except_def flash_defs input_defs blink_line
          float_overflow_huge)
  have negative: "handle_line sim_send_line popen_ok (panel_with (- 1)) ''BTN|1|DOWN'' sim_env
       = Some (Returned (),
               \<lparr>transport = False, sent = [''LED|1|BLINK|180''], spawned = [[''notepad.exe'']],
                timers = [(''1'', - 1)]\<rparr>)"
    unfolding handle_line_button_1
    by (simp add: launch_program_def Popen_def try_except_def flash_defs input_defs blink_line small_fits)
  have long: "handle_line sim_send_line popen_ok (panel_with 10000000000000000) ''BTN|1|DOWN'' sim_env
       = Some (Returned (),
               \<lparr>transport = False, sent = [''LED|1|BLINK|180''], spawned = [[''notepad.exe'']],
                timers = [(''1'', 10000000000000000)]\<rparr>)"
    unfolding handle_line_button_1
    by (simp add: launch_program_def Popen_def try_except_def flash_defs input_defs blink_line small_fits)
  have tasks: "delayed_led_off platform_range sim_send_line ''1'' (- 1) sim_env
       = Some (Raised ValueError, sim_env)"
    "delayed_led_off platform_range sim_send_line ''1'' 10000000000000000 sim_env
       = Some (Raised OverflowError, sim_env)"
    by (simp_all add: delayed_led_off_raises platform_range_def)
  have progs: "programs panel_driver ''1'' = Some [''notepad.exe'']"
    "programs (panel_with huge) ''1'' = Some [''notepad.exe'']"
    by (simp_all add: input_defs)
  from missing base huge negative long tasks progs show ?thesis
    by simp
qed

text \<open>
  Claim C3, amended. For every line of the form \<open>BTN|<id>|DOWN\<close> (topic and action compared
  in upper case) where \<open><id>\<close> is a key of the program registry, when the process spawn
  succeeds, the transport's \<open>send_line\<close> returns normally for the BLINK line, and the
  success duration is a non-negative number of milliseconds that converts to a float and
  that \<open>time.sleep\<close> accepts, \<open>handle_line\<close> returns normally, having made exactly one
  spawn attempt, with the registry's token sequence for \<open><id>\<close>, handed exactly one line to
  the transport, the success pattern \<open>LED|<id>|BLINK|180\<close>, and started exactly one timer
  for \<open><id>\<close> with the success duration; that timer's task, after its sleep, sends the
  line \<open>LED|<id>|OFF\<close>.
\<close>

theorem handle_line_mapped_down:
  assumes "line = t @ ''|'' @ bid @ ''|'' @ a" and "upper t = ''BTN''" and "upper a = ''DOWN''"
    and "CHR ''|'' \<notin> set bid"
    and "programs drv bid = Some command"
    and "popen command = None"
    and "send (''LED|'' @ bid @ ''|BLINK|180'') (transport e) = Some (Returned (), tr)"
    and "\<not> float_overflow (success_flash_ms drv)"
    and "sleep_range (success_flash_ms drv)" and "0 \<le> success_flash_ms drv"
  shows "handle_line send popen drv line e
           = Some (Returned (),
                   e\<lparr>transport := tr,
                     sent := sent e @ [''LED|'' @ bid @ ''|BLINK|180''],
                     spawned := spawned e @ [command],
                     timers := timers e @ [(bid, success_flash_ms drv)]\<rparr>)
         \<and> delayed_led_off sleep_range send bid (success_flash_ms drv) e'
             = transport_send_line send (''LED|'' @ bid @ ''|OFF'') e'"
proof -
  let ?e1 = "e\<lparr>spawned := spawned e @ [command]\<rparr>"
  have "send (led_command (IdStr bid) ''BLINK'' (Some (blink_period True))) (transport ?e1)
          = Some (Returned (), tr)"
    using assms(7) by (simp add: blink_line)
  then have "flash_led send drv bid True ?e1
          = Some (Returned (),
                  ?e1\<lparr>transport := tr,
                    sent := sent ?e1 @ [led_command (IdStr bid) ''BLINK'' (Some (blink_period True))],
                    timers := timers ?e1 @ [(bid, success_flash_ms drv)]\<rparr>)"
    using assms(8) by (simp add: flash_led_returned)
  then have "launch_program send popen drv bid e
          = Some (Returned (),
                   e\<lparr>transport := tr,
                     sent := sent e @ [''LED|'' @ bid @ ''|BLINK|180''],
                     spawned := spawned e @ [command],
                     timers := timers e @ [(bid, success_flash_ms drv)]\<rparr>)"
    using assms(5,6) by (simp add: launch_program_mapped_ok try_except_def blink_line)
  moreover have "handle_line send popen drv line e = launch_program send popen drv bid e"
    using assms(1-4) by (rule handle_line_down)
  moreover have "delayed_led_off sleep_range send bid (success_flash_ms drv) e'
             = transport_send_line send (''LED|'' @ bid @ ''|OFF'') e'"
    using assms(9,10) by (rule delayed_led_off_sends)
  ultimately show ?thesis by simp
qed

text \<open>
  The line \<open>btn|1|Down\<close> over a \<open>SimulationTransport\<close>, with a spawn that succeeds and the
  default durations.
\<close>

theorem handle_line_mapped_down_witness:
  "upper ''btn'' = ''BTN'' \<and> upper ''Down'' = ''DOWN'' \<and> CHR ''|'' \<notin> set ''1''
   \<and> programs panel_driver ''1'' = Some [''notepad.exe'']
   \<and> popen_ok [''notepad.exe''] = None
   \<and> sim_send_line ''LED|1|BLINK|180'' (transport sim_env) = Some (Returned (), False)
   \<and> \<not> float_overflow (success_flash_ms panel_driver)
   \<and> platform_range (success_flash_ms panel_driver) \<and> 0 \<le> success_flash_ms panel_driver
   \<and> handle_line sim_send_line popen_ok panel_driver ''btn|1|Down'' sim_env
       = Some (Returned (),
               \<lparr>transport = False, sent = [''LED|1|BLINK|180''], spawned = [[''notepad.exe'']],
                timers = [(''1'', 1200)]\<rparr>)
   \<and> delayed_led_off platform_range sim_send_line ''1'' 1200 sim_env
       = Some (Returned (),
               \<lparr>transport = False, sent = [''LED|1|OFF''], spawned = [], timers = []\<rparr>)"
proof -
  have u: "upper ''btn'' = ''BTN''" "upper ''Down'' = ''DOWN''"
    by (simp_all add: upper_def upper_char_def)
  have p: "programs panel_driver ''1'' = Some [''notepad.exe'']" "popen_ok [''notepad.exe''] = None"
    by (simp_all add: input_defs)
  have s: "sim_send_line (''LED|'' @ ''1'' @ ''|BLINK|180'') (transport sim_env) = Some (Returned (), False)"
    by (simp add: input_defs)
  have d: "\<not> float_overflow (success_flash_ms panel_driver)"
    "platform_range (success_flash_ms panel_driver)" "0 \<le> success_flash_ms panel_driver"
    by (simp_all add: input_defs small_fits platform_range_def)
  have l: "''btn|1|Down'' = ''btn'' @ ''|'' @ ''1'' @ ''|'' @ ''Down''" by simp
  have b: "CHR ''|'' \<notin> set ''1''" by simp
  have off: "transport_send_line sim_send_line ''LED|1|OFF'' sim_env
       = Some (Returned (),
               \<lparr>transport = False, sent = [''LED|1|OFF''], spawned = [], timers = []\<rparr>)"
    by (simp add: transport_send_line_def input_defs)
  have ms: "success_flash_ms panel_driver = 1200"
    by (simp add: input_defs)
  from u b p s d l off
    handle_line_mapped_down [where line = "''btn|1|Down''" and t = "''btn''" and bid = "''1''"
      and a = "''Down''" and drv = panel_driver and command = "[''notepad.exe'']"
      and popen = popen_ok and send = sim_send_line and e = sim_env and tr = False and e' = sim_env
      and sleep_range = platform_range]
  show ?thesis
    unfolding ms by (simp add: sim_env_def)
qed

text \<open>
  Claim C4, as stated, at the line \<open>BTN|9|DOWN\<close> with button \<open>9\<close> unmapped. Over a transport
  whose \<open>send_line\<close> raises (the \<open>TransportBase\<close> one always does), the exception leaves
  \<open>handle_line\<close>, since \<open>flash_led\<close> is called outside any \<open>try\<close>, and no OFF is
  scheduled. Over the connected serial transport whose next write fails, the call does
  not come back from \<open>send_line\<close>, and no OFF is scheduled either. With an error duration
  that no float holds, \<open>duration / 1000.0\<close> raises \<open>OverflowError\<close> after the BLINK was
  sent, the exception leaves \<open>handle_line\<close>, and no timer is started. With a negative
  duration, or one beyond the range of \<open>time.sleep\<close>, the timer is started but its task
  raises in \<open>time.sleep\<close> and never sends the OFF.
\<close>

theorem handle_line_unmapped_down_counterexample:
  "programs panel_driver ''9'' = None
   \<and> handle_line base_send_line popen_ok panel_driver ''BTN|9|DOWN'' base_env
       = Some (Raised NotImplementedError,
               \<lparr>transport = (), sent = [''LED|9|BLINK|80''], spawned = [], timers = []\<rparr>)
   \<and> handle_line (send_line 3 write_glitch) popen_ok panel_driver ''BTN|9|DOWN'' serial_env
       = Some (Blocked,
               \<lparr>transport =
                  \<lparr>serial = Some (Serial True), lock_held = True, opens = 2, writes = 2, reads = 0,
                   wire = [''HELLO|PC'' @ [CHR 0x0A]]\<rparr>,
                sent = [''LED|9|BLINK|80''], spawned = [], timers = []\<rparr>)
   \<and> programs (panel_with huge) ''9'' = None
   \<and> handle_line sim_send_line popen_ok (panel_with huge) ''BTN|9|DOWN'' sim_env
       = Some (Raised OverflowError,
               \<lparr>transport = False, sent = [''LED|9|BLINK|80''], spawned = [], timers = []\<rparr>)
   \<and> handle_line sim_send_line popen_ok (panel_with (- 1)) ''BTN|9|DOWN'' sim_env
       = Some (Returned (),
               \<lparr>transport = False, sent = [''LED|9|BLINK|80''], spawned = [],
                timers = [(''9'', - 1)]\<rparr>)
   \<and> delayed_led_off platform_range sim_send_line ''9'' (- 1) sim_env
       = Some (Raised ValueError, sim_env)
   \<and> handle_line sim_send_line popen_ok (panel_with 10000000000000000) ''BTN|9|DOWN'' sim_env
       = Some (Returned (),
               \<lparr>transport = False, sent = [''LED|9|BLINK|80''], spawned = [],
                timers = [(''9'', 10000000000000000)]\<rparr>)
   \<and> delayed_led_off platform_range sim_send_line ''9'' 10000000000000000 sim_env
       = Some (Raised OverflowError, sim_env)"
proof -
  have p: "programs panel_driver ''9'' = None" "programs (panel_with huge) ''9'' = None"
    by (simp_all add: input_defs)
  have base: "handle_line base_send_line popen_ok panel_driver ''BTN|9|DOWN'' base_env
       = Some (Raised NotImplementedError,
               \<lparr>transport = (), sent = [''LED|9|BLINK|80''], spawned = [], timers = []\<rparr>)"
    unfolding handle_line_button_9
    by (simp add: launch_program_def flash_defs input_defs blink_line)
  have arg: "led_command (IdStr ''9'') ''BLINK'' (Some (blink_period False)) = ''LED|9|BLINK|80''"
    by (simp add: blink_line)
  have tr: "transport serial_env = connected"
    by (simp add: serial_env_def)
  have "send_line (Suc (Suc (Suc 0))) write_glitch ''LED|9|BLINK|80'' connected
     = Some (Blocked,
             \<lparr>serial = Some (Serial True), lock_held = True, opens = 2, writes = 2, reads = 0,
              wire = [''HELLO|PC'' @ [CHR 0x0A]]\<rparr>)"
    by (simp add: world_defs with_lock_def and_then_def try_except_def serial_write_def serial_open_def)
  then have "send_line 3 write_glitch (led_command (IdStr ''9'') ''BLINK'' (Some (blink_period False)))
               (transport serial_env)
     = Some (Blocked,
             \<lparr>serial = Some (Serial True), lock_held = True, opens = 2, writes = 2, reads = 0,
              wire = [''HELLO|PC'' @ [CHR 0x0A]]\<rparr>)"
    unfolding arg tr three .
  then have "flash_led (send_line 3 write_glitch) panel_driver ''9'' False serial_env
     = Some (Blocked,
             serial_env\<lparr>transport :=
                  \<lparr>serial = Some (Serial True), lock_held = True, opens = 2, writes = 2, reads = 0,
                   wire = [''HELLO|PC'' @ [CHR 0x0A]]\<rparr>,
                sent := sent serial_env @ [led_command (IdStr ''9'') ''BLINK'' (Some (blink_period False))]\<rparr>)"
    by (rule flash_led_blocked)
  then have serial: "handle_line (send_line 3 write_glitch) popen_ok panel_driver ''BTN|9|DOWN'' serial_env
       = Some (Blocked,
               \<lparr>transport =
                  \<lparr>serial = Some (Serial True), lock_held = True, opens = 2, writes = 2, reads = 0,
                   wire = [''HELLO|PC'' @ [CHR 0x0A]]\<rparr>,
                sent = [''LED|9|BLINK|80''], spawned = [], timers = []\<rparr>)"
    unfolding handle_line_button_9 arg by (simp add: launch_program_def p serial_env_def)
  have huge: "handle_line sim_send_line popen_ok (panel_with huge) ''BTN|9|DOWN'' sim_env
       = Some (Raised OverflowError,
               \<lparr>transport = False, sent = [''LED|9|BLINK|80''], spawned = [], timers = []\<rparr>)"
    unfolding handle_line_button_9
    by (simp add: launch_program_def flash_defs input_defs blink_line float_overflow_huge)
  have negative: "handle_line sim_send_line popen_ok (panel_with (- 1)) ''BTN|9|DOWN'' sim_env
       = Some (Returned (),
               \<lparr>transport = False, sent = [''LED|9|BLINK|80''], spawned = [],
                timers = [(''9'', - 1)]\<rparr>)"
    unfolding handle_line_button_9
    by (simp add: launch_program_def flash_defs input_defs blink_line small_fits)
  have long: "handle_line sim_send_line popen_ok (panel_with 10000000000000000) ''BTN|9|DOWN'' sim_env
       = Some (Returned (),
               \<lparr>transport = False, sent = [''LED|9|BLINK|80''], spawned = [],
                timers = [(''9'', 10000000000000000)]\<rparr>)"
    unfolding handle_line_button_9
    by (simp add: launch_program_def flash_defs input_defs blink_line small_fits)
  have tasks: "delayed_led_off platform_range sim_send_line ''9'' (- 1) sim_env
       = Some (Raised ValueError, sim_env)"
    "delayed_led_off platform_range sim_send_line ''9'' 10000000000000000 sim_env
       = Some (Raised OverflowError, sim_env)"
    by (simp_all add: delayed_led_off_raises platform_range_def)
  from p base serial huge negative long tasks show ?thesis
    by simp
qed

text \<open>
  Claim C4, amended. For every line \<open>BTN|<id>|DOWN\<close> where \<open><id>\<close> is not a key of the program
  registry, when the transport's \<open>send_line\<close> returns normally for the BLINK line and the
  error duration is a non-negative number of milliseconds that converts to a float and
  that \<open>time.sleep\<close> accepts, \<open>handle_line\<close> returns normally (no exception leaves the
  call), having made no spawn attempt, handed exactly one line to the transport, the
  failure pattern \<open>LED|<id>|BLINK|80\<close>, and started exactly one timer for \<open><id>\<close> with the
  error duration; that timer's task, after its sleep, sends the line \<open>LED|<id>|OFF\<close>.
\<close>

theorem handle_line_unmapped_down:
  assumes "line = t @ ''|'' @ bid @ ''|'' @ a" and "upper t = ''BTN''" and "upper a = ''DOWN''"
    and "CHR ''|'' \<notin> set bid"
    and "programs drv bid = None"
    and "send (''LED|'' @ bid @ ''|BLINK|80'') (transport e) = Some (Returned (), tr)"
    and "\<not> float_overflow (error_flash_ms drv)"
    and "sleep_range (error_flash_ms drv)" and "0 \<le> error_flash_ms drv"
  shows "handle_line send popen drv line e
           = Some (Returned (),
                   e\<lparr>transport := tr,
                     sent := sent e @ [''LED|'' @ bid @ ''|BLINK|80''],
                     timers := timers e @ [(bid, error_flash_ms drv)]\<rparr>)
         \<and> delayed_led_off sleep_range send bid (error_flash_ms drv) e'
             = transport_send_line send (''LED|'' @ bid @ ''|OFF'') e'"
proof -
  have "send (led_command (IdStr bid) ''BLINK'' (Some (blink_period False))) (transport e)
          = Some (Returned (), tr)"
    using assms(6) by (simp add: blink_line)
  then have "launch_program send popen drv bid e
          = Some (Returned (),
                   e\<lparr>transport := tr,
                     sent := sent e @ [''LED|'' @ bid @ ''|BLINK|80''],
                     timers := timers e @ [(bid, error_flash_ms drv)]\<rparr>)"
    using assms(5,7) by (simp add: launch_program_def flash_led_returned blink_line)
  moreover have "handle_line send popen drv line e = launch_program send popen drv bid e"
    using assms(1-4) by (rule handle_line_down)
  moreover have "delayed_led_off sleep_range send bid (error_flash_ms drv) e'
             = transport_send_line send (''LED|'' @ bid @ ''|OFF'') e'"
    using assms(8,9) by (rule delayed_led_off_sends)
  ultimately show ?thesis by simp
qed

text \<open>The line \<open>BTN|9|down\<close> over a \<open>SimulationTransport\<close>, with the default durations.\<close>

theorem handle_line_unmapped_down_witness:
  "upper ''BTN'' = ''BTN'' \<and> upper ''down'' = ''DOWN'' \<and> CHR ''|'' \<notin> set ''9''
   \<and> programs panel_driver ''9'' = None
   \<and> sim_send_line ''LED|9|BLINK|80'' (transport sim_env) = Some (Returned (), False)
   \<and> \<not> float_overflow (error_flash_ms panel_driver)
   \<and> platform_range (error_flash_ms panel_driver) \<and> 0 \<le> error_flash_ms panel_driver
   \<and> handle_line sim_send_line popen_ok panel_driver ''BTN|9|down'' sim_env
       = Some (Returned (),
               \<lparr>transport = False, sent = [''LED|9|BLINK|80''], spawned = [],
                timers = [(''9'', 2000)]\<rparr>)
   \<and> delayed_led_off platform_range sim_send_line ''9'' 2000 sim_env
       = Some (Returned (),
               \<lparr>transport = False, sent = [''LED|9|OFF''], spawned = [], timers = []\<rparr>)"
proof -
  have u: "upper ''BTN'' = ''BTN''" "upper ''down'' = ''DOWN''"
    by (simp_all add: upper_def upper_char_def)
  have p: "programs panel_driver ''9'' = None"
    by (simp add: input_defs)
  have s: "sim_send_line (''LED|'' @ ''9'' @ ''|BLINK|80'') (transport sim_env) = Some (Returned (), False)"
    by (simp add: input_defs)
  have d: "\<not> float_overflow (error_flash_ms panel_driver)"
    "platform_range (error_flash_ms panel_driver)" "0 \<le> error_flash_ms panel_driver"
    by (simp_all add: input_defs small_fits platform_range_def)
  have l: "''BTN|9|down'' = ''BTN'' @ ''|'' @ ''9'' @ ''|'' @ ''down''" by simp
  have b: "CHR ''|'' \<notin> set ''9''" by simp
  have off: "transport_send_line sim_send_line ''LED|9|OFF'' sim_env
       = Some (Returned (),
               \<lparr>transport = False, sent = [''LED|9|OFF''], spawned = [], timers = []\<rparr>)"
    by (simp add: transport_send_line_def input_defs)
  have ms: "error_flash_ms panel_driver = 2000"
    by (simp add: input_defs)
  from u b p s d l off
    handle_line_unmapped_down [where line = "''BTN|9|down''" and t = "''BTN''" and bid = "''9''"
      and a = "''down''" and drv = panel_driver and popen = popen_ok and send = sim_send_line
      and e = sim_env and tr = False and e' = sim_env and sleep_range = platform_range]
  show ?thesis
    unfolding ms by (simp add: sim_env_def)
qed

section \<open>Failures of the serial channel\<close>

text \<open>
  Claim C2 says that after a failed write \<open>send_line\<close> reconnects, retries the write once
  and returns normally if the retry succeeds. Here the transport is connected, the write
  of \<open>LED|1|OFF\<close> fails, the port reopens at once and every later write would succeed.
  \<open>send_line\<close> sets \<open>self.serial = None\<close> and calls \<open>_connect_with_retry\<close> inside
  \<open>with self._lock\<close>; the port is reopened, and the handshake \<open>self.send_line("HELLO|PC")\<close>
  waits for the lock that the thread holds itself. With three units of fuel the call is
  blocked there; with any fuel it has neither returned nor raised, and the wire holds
  what it held before: the payload is never written again.
\<close>

theorem send_line_write_failure_blocks:
  "send_line 3 write_glitch ''LED|1|OFF'' connected
     = Some (Blocked,
             \<lparr>serial = Some (Serial True), lock_held = True, opens = 2, writes = 2, reads = 0,
              wire = [''HELLO|PC'' @ [CHR 0x0A]]\<rparr>)
   \<and> (\<forall>n. send_line n write_glitch ''LED|1|OFF'' connected = None
          \<or> (\<exists>s. send_line n write_glitch ''LED|1|OFF'' connected = Some (Blocked, s)
                  \<and> wire s = wire connected))"
proof -
  have "send_line (Suc (Suc (Suc 0))) write_glitch ''LED|1|OFF'' connected
     = Some (Blocked,
             \<lparr>serial = Some (Serial True), lock_held = True, opens = 2, writes = 2, reads = 0,
              wire = [''HELLO|PC'' @ [CHR 0x0A]]\<rparr>)"
    by (simp add: world_defs with_lock_def and_then_def try_except_def serial_write_def serial_open_def)
  moreover have "\<not> lock_held connected" "serial connected = Some (Serial True)"
    "\<not> write_ok write_glitch (writes connected)"
    by (simp_all add: world_defs)
  ultimately show ?thesis
    using send_line_write_failure [of connected write_glitch]
    by (simp add: three)
qed

text \<open>
  Claim C6 says that a read failure returns an empty read and marks the transport
  disconnected, so that the reconnection happens on the next send or read attempt. Here
  the transport is connected and the first \<open>readline\<close> fails. \<open>read_line\<close> returns the empty
  string and leaves \<open>self.serial = None\<close>, without opening the port. From there the next
  \<open>read_line\<close> reconnects: it opens the port, sends the handshake and delivers the frame.
  The next \<open>send_line\<close> does not: \<open>_require_serial\<close> runs inside \<open>with self._lock\<close>, the port
  is reopened, and the handshake \<open>self.send_line("HELLO|PC")\<close> waits for the lock that the
  thread holds itself. With four units of fuel the call is blocked there; with any fuel
  it has neither returned nor raised, and the wire holds only the first handshake.
\<close>

theorem read_failure_then_send_blocks:
  "read_line 1 read_glitch connected
     = Some (Returned (Some ''''), connected\<lparr>reads := 1, serial := None\<rparr>)
   \<and> read_line 4 read_glitch (connected\<lparr>reads := 1, serial := None\<rparr>)
       = Some (Returned (Some ''BTN|1|DOWN''),
               \<lparr>serial = Some (Serial True), lock_held = False, opens = 2, writes = 2, reads = 2,
                wire = [''HELLO|PC'' @ [CHR 0x0A], ''HELLO|PC'' @ [CHR 0x0A]]\<rparr>)
   \<and> send_line 4 read_glitch ''LED|1|OFF'' (connected\<lparr>reads := 1, serial := None\<rparr>)
       = Some (Blocked,
               \<lparr>serial = Some (Serial True), lock_held = True, opens = 2, writes = 1, reads = 1,
                wire = [''HELLO|PC'' @ [CHR 0x0A]]\<rparr>)
   \<and> (\<forall>n. send_line n read_glitch ''LED|1|OFF'' (connected\<lparr>reads := 1, serial := None\<rparr>) = None
          \<or> (\<exists>s. send_line n read_glitch ''LED|1|OFF'' (connected\<lparr>reads := 1, serial := None\<rparr>)
                    = Some (Blocked, s)
                  \<and> wire s = wire connected))"
proof -
  have r: "require_serial 1 read_glitch connected = Some (Returned (Some (Serial True)), connected)"
    by (simp add: world_defs)
  have f: "readline_result read_glitch (reads connected) = None"
    by (simp add: world_defs)
  from read_line_failure [OF r f] have first: "read_line 1 read_glitch connected
       = Some (Returned (Some ''''), connected\<lparr>reads := 1, serial := None\<rparr>)"
    by (simp add: world_defs)
  have "read_line (Suc (Suc (Suc (Suc 0)))) read_glitch (connected\<lparr>reads := 1, serial := None\<rparr>)
       = Some (Returned (Some ''BTN|1|DOWN''),
               \<lparr>serial = Some (Serial True), lock_held = False, opens = 2, writes = 2, reads = 2,
                wire = [''HELLO|PC'' @ [CHR 0x0A], ''HELLO|PC'' @ [CHR 0x0A]]\<rparr>)"
    by (simp add: read_line_def world_defs with_lock_def and_then_def try_except_def
          serial_write_def serial_open_def strip_def is_space_def)
  then have next_read: "read_line 4 read_glitch (connected\<lparr>reads := 1, serial := None\<rparr>)
       = Some (Returned (Some ''BTN|1|DOWN''),
               \<lparr>serial = Some (Serial True), lock_held = False, opens = 2, writes = 2, reads = 2,
                wire = [''HELLO|PC'' @ [CHR 0x0A], ''HELLO|PC'' @ [CHR 0x0A]]\<rparr>)"
    by (simp add: four)
  have "send_line (Suc (Suc (Suc (Suc 0)))) read_glitch ''LED|1|OFF''
          (connected\<lparr>reads := 1, serial := None\<rparr>)
       = Some (Blocked,
               \<lparr>serial = Some (Serial True), lock_held = True, opens = 2, writes = 1, reads = 1,
                wire = [''HELLO|PC'' @ [CHR 0x0A]]\<rparr>)"
    by (simp add: world_defs with_lock_def and_then_def try_except_def serial_write_def serial_open_def)
  then have next_send: "send_line 4 read_glitch ''LED|1|OFF'' (connected\<lparr>reads := 1, serial := None\<rparr>)
       = Some (Blocked,
               \<lparr>serial = Some (Serial True), lock_held = True, opens = 2, writes = 1, reads = 1,
                wire = [''HELLO|PC'' @ [CHR 0x0A]]\<rparr>)"
    by (simp add: four)
  have "\<not> lock_held (connected\<lparr>reads := 1, serial := None\<rparr>)"
    "serial (connected\<lparr>reads := 1, serial := None\<rparr>) = None"
    by (simp_all add: world_defs)
  then have never: "send_line n read_glitch ''LED|1|OFF'' (connected\<lparr>reads := 1, serial := None\<rparr>) = None
          \<or> (\<exists>s. send_line n read_glitch ''LED|1|OFF'' (connected\<lparr>reads := 1, serial := None\<rparr>)
                    = Some (Blocked, s)
                  \<and> wire s = wire (connected\<lparr>reads := 1, serial := None\<rparr>))" for n
    by (rule send_line_disconnected)
  have "wire (connected\<lparr>reads := 1, serial := None\<rparr>) = wire connected"
    by simp
  with never first next_read next_send show ?thesis
    by simp
qed

end
